theory Spec2Isabelle
  imports Main
begin

section \<open>GSeal Lite mock server: data model\<close>

text \<open>
  The module \<^verbatim>\<open>gseal_lite_server.py\<close> hosts three FastAPI endpoints in one process:
  \<^verbatim>\<open>/start-test\<close>, \<^verbatim>\<open>/mock-gseal-api\<close> and \<^verbatim>\<open>/app-webhook-listener\<close>, and a
  background coroutine \<^verbatim>\<open>dispatch_webhook\<close>.

  Values of Python type \<^verbatim>\<open>Any\<close> that arrive in a JSON body are JSON values. A
  \<^verbatim>\<open>Dict[str, Any]\<close> is an association list in insertion order (Python dictionaries keep
  it); its keys are distinct. Numbers are integers here: floating point is not modelled, so
  a body that holds a float is outside the model. The handlers never look inside the values
  of a dictionary. The rendering of a response does: the framework writes a non-finite float
  as \<^verbatim>\<open>null\<close>. On the values of this model the rendering changes nothing.
\<close>

datatype json =
    JNull
  | JBool bool
  | JNum int
  | JStr string
  | JArr "json list"
  | JObj "(string \<times> json) list"

type_synonym dict = "(string \<times> json) list"

text \<open>The three Pydantic models, fields in declaration order.\<close>

record StartTestRequest =
  mock_payload :: dict
  webhook_payload :: "dict option"

record MockGsealRequest =
  mock_payload :: dict
  webhook_payload :: "dict option"

record WebhookNotification =
  event :: string
  data :: dict

text \<open>
  \<^verbatim>\<open>StartTestRequest()\<close>, \<^verbatim>\<open>MockGsealRequest()\<close> and \<^verbatim>\<open>WebhookNotification()\<close>: every
  field at its declared default.
\<close>

definition StartTestRequest_default :: StartTestRequest where
  "StartTestRequest_default =
     \<lparr>StartTestRequest.mock_payload = [(''document_id'', JStr ''demo-document'')],
      StartTestRequest.webhook_payload = None\<rparr>"

definition MockGsealRequest_default :: MockGsealRequest where
  "MockGsealRequest_default =
     \<lparr>MockGsealRequest.mock_payload = [],
      MockGsealRequest.webhook_payload = None\<rparr>"

definition WebhookNotification_default :: WebhookNotification where
  "WebhookNotification_default = \<lparr>event = ''mock.document.completed'', data = []\<rparr>"

subsection \<open>Errors, responses and effects\<close>

text \<open>
  Exceptions are values. \<open>HTTPStatusError s\<close> is what httpx's \<^verbatim>\<open>raise_for_status\<close>
  raises for status \<open>s\<close>; \<open>ValueError\<close> is what \<^verbatim>\<open>response.json()\<close> raises on a body
  that is not JSON; \<open>TransportError\<close> stands for a failure of the POST itself
  (network failure, timeout).
\<close>

datatype error = HTTPStatusError nat | ValueError | TransportError

text \<open>
  The body of an HTTP response: \<open>JsonBody j\<close> is a body whose text decodes to \<open>j\<close>,
  \<open>RawBody s\<close> a body whose text \<open>s\<close> does not decode as JSON.
\<close>

datatype body = JsonBody json | RawBody string

record response =
  status_code :: nat
  content :: body

text \<open>
  What a handler does besides returning, in program order: a call of \<^verbatim>\<open>logger.info\<close> with
  its format string and arguments, \<^verbatim>\<open>asyncio.sleep\<close> with its seconds, a POST of the
  internal client with its path, JSON body and timeout in seconds, and
  \<^verbatim>\<open>asyncio.create_task(dispatch_webhook(p))\<close> with the payload \<open>p\<close>.
\<close>

datatype log_arg = ArgJson json | ArgText string | ArgStatus nat

datatype effect =
    LogInfo string "log_arg list"
  | Sleep nat
  | HttpPost string json nat
  | CreateTask dict

section \<open>The source functions\<close>

subsection \<open>\<^verbatim>\<open>_model_to_dict\<close>\<close>

text \<open>
  \<^verbatim>\<open>model.model_dump(exclude_none=True)\<close> (\<^verbatim>\<open>model.dict(exclude_none=True)\<close> under
  Pydantic v1): the model's fields in declaration order, a field whose value is \<^verbatim>\<open>None\<close>
  left out. A model is given by its fields, \<open>None\<close> for a field that holds \<^verbatim>\<open>None\<close>.
\<close>

type_synonym model_fields = "(string \<times> json option) list"

fun model_to_dict :: "model_fields \<Rightarrow> dict" where
  "model_to_dict [] = []"
| "model_to_dict ((k, None) # fs) = model_to_dict fs"
| "model_to_dict ((k, Some v) # fs) = (k, v) # model_to_dict fs"

definition StartTestRequest_fields :: "StartTestRequest \<Rightarrow> model_fields" where
  "StartTestRequest_fields p =
     [(''mock_payload'', Some (JObj (StartTestRequest.mock_payload p))),
      (''webhook_payload'', map_option JObj (StartTestRequest.webhook_payload p))]"

definition MockGsealRequest_fields :: "MockGsealRequest \<Rightarrow> model_fields" where
  "MockGsealRequest_fields r =
     [(''mock_payload'', Some (JObj (MockGsealRequest.mock_payload r))),
      (''webhook_payload'', map_option JObj (MockGsealRequest.webhook_payload r))]"

definition WebhookNotification_fields :: "WebhookNotification \<Rightarrow> model_fields" where
  "WebhookNotification_fields n =
     [(''event'', Some (JStr (event n))), (''data'', Some (JObj (data n)))]"

subsection \<open>\<^verbatim>\<open>mock_gseal_api\<close>\<close>

text \<open>
  The handler of \<^verbatim>\<open>POST /mock-gseal-api\<close>: it logs the request, takes the request's
  \<^verbatim>\<open>webhook_payload\<close> when that is not \<^verbatim>\<open>None\<close> and synthesises one from
  \<^verbatim>\<open>mock_payload\<close> otherwise, schedules \<^verbatim>\<open>dispatch_webhook\<close> with it and returns
  it. The result is the returned dictionary and the effects.
\<close>

definition mock_gseal_api :: "MockGsealRequest \<Rightarrow> dict \<times> effect list" where
  "mock_gseal_api r =
     (let request_dict = model_to_dict (MockGsealRequest_fields r);
          wp = (case MockGsealRequest.webhook_payload r of
                  Some supplied \<Rightarrow> supplied
                | None \<Rightarrow>
                    [(''event'', JStr ''mock.document.completed''),
                     (''data'', JObj [(''status'', JStr ''completed''),
                                      (''original_payload'',
                                       JObj (MockGsealRequest.mock_payload r))])])
      in ([(''status'', JStr ''webhook_scheduled''), (''webhook_payload'', JObj wp)],
          [LogInfo ''Mock GSeal API received payload: %s'' [ArgJson (JObj request_dict)],
           CreateTask wp]))"

subsection \<open>\<^verbatim>\<open>app_webhook_listener\<close>\<close>

definition app_webhook_listener :: "WebhookNotification \<Rightarrow> dict \<times> effect list" where
  "app_webhook_listener n =
     (let notification_dict = model_to_dict (WebhookNotification_fields n)
      in ([(''status'', JStr ''received''), (''payload'', JObj notification_dict)],
          [LogInfo ''Webhook listener received payload: %s''
             [ArgJson (JObj notification_dict)]]))"

subsection \<open>Request validation and the routes\<close>

text \<open>
  FastAPI validates a request body against the handler's parameter type before the handler
  runs. A field that is missing takes its declared default, keys that are not fields are
  ignored, and a field whose value has the wrong JSON type makes the body invalid (Pydantic
  v2; version 1 would also coerce a number to a string). An \<^verbatim>\<open>Optional\<close> field accepts
  \<^verbatim>\<open>null\<close>. \<open>None\<close> is a body that is rejected.
\<close>

fun field_dict :: "json option \<Rightarrow> dict \<Rightarrow> dict option" where
  "field_dict None dflt = Some dflt"
| "field_dict (Some (JObj kvs)) dflt = Some kvs"
| "field_dict (Some _) dflt = None"

fun field_optional_dict :: "json option \<Rightarrow> dict option option" where
  "field_optional_dict None = Some None"
| "field_optional_dict (Some JNull) = Some None"
| "field_optional_dict (Some (JObj kvs)) = Some (Some kvs)"
| "field_optional_dict (Some _) = None"

fun field_str :: "json option \<Rightarrow> string \<Rightarrow> string option" where
  "field_str None dflt = Some dflt"
| "field_str (Some (JStr s)) dflt = Some s"
| "field_str (Some _) dflt = None"

definition validate_StartTestRequest :: "json \<Rightarrow> StartTestRequest option" where
  "validate_StartTestRequest b =
     (case b of
        JObj kvs \<Rightarrow>
          (case field_dict (map_of kvs ''mock_payload'')
                  (StartTestRequest.mock_payload StartTestRequest_default) of
             None \<Rightarrow> None
           | Some mp \<Rightarrow>
               (case field_optional_dict (map_of kvs ''webhook_payload'') of
                  None \<Rightarrow> None
                | Some wp \<Rightarrow>
                    Some \<lparr>StartTestRequest.mock_payload = mp,
                          StartTestRequest.webhook_payload = wp\<rparr>))
      | _ \<Rightarrow> None)"

definition validate_MockGsealRequest :: "json \<Rightarrow> MockGsealRequest option" where
  "validate_MockGsealRequest b =
     (case b of
        JObj kvs \<Rightarrow>
          (case field_dict (map_of kvs ''mock_payload'')
                  (MockGsealRequest.mock_payload MockGsealRequest_default) of
             None \<Rightarrow> None
           | Some mp \<Rightarrow>
               (case field_optional_dict (map_of kvs ''webhook_payload'') of
                  None \<Rightarrow> None
                | Some wp \<Rightarrow>
                    Some \<lparr>MockGsealRequest.mock_payload = mp,
                          MockGsealRequest.webhook_payload = wp\<rparr>))
      | _ \<Rightarrow> None)"

definition validate_WebhookNotification :: "json \<Rightarrow> WebhookNotification option" where
  "validate_WebhookNotification b =
     (case b of
        JObj kvs \<Rightarrow>
          (case field_str (map_of kvs ''event'') (event WebhookNotification_default) of
             None \<Rightarrow> None
           | Some e \<Rightarrow>
               (case field_dict (map_of kvs ''data'') (data WebhookNotification_default) of
                  None \<Rightarrow> None
                | Some d \<Rightarrow> Some \<lparr>event = e, data = d\<rparr>))
      | _ \<Rightarrow> None)"

text \<open>
  A body that fails validation is answered 422 with a \<^verbatim>\<open>detail\<close> list (its entries are
  not modelled); a dictionary the handler returns is answered 200 with that dictionary as
  JSON (\<open>ok_json\<close>, the rendering of the dictionary).
\<close>

definition unprocessable :: response where
  "unprocessable = \<lparr>status_code = 422, content = JsonBody (JObj [(''detail'', JArr [])])\<rparr>"

definition ok_json :: "dict \<Rightarrow> response" where
  "ok_json d = \<lparr>status_code = 200, content = JsonBody (JObj d)\<rparr>"

text \<open>
  \<^verbatim>\<open>@app.post("/mock-gseal-api")\<close> and \<^verbatim>\<open>@app.post("/app-webhook-listener")\<close>: the
  body is required.
\<close>

definition post_mock_gseal_api :: "json \<Rightarrow> response \<times> effect list" where
  "post_mock_gseal_api b =
     (case validate_MockGsealRequest b of
        None \<Rightarrow> (unprocessable, [])
      | Some r \<Rightarrow> (let (d, effs) = mock_gseal_api r in (ok_json d, effs)))"

definition post_app_webhook_listener :: "json \<Rightarrow> response \<times> effect list" where
  "post_app_webhook_listener b =
     (case validate_WebhookNotification b of
        None \<Rightarrow> (unprocessable, [])
      | Some n \<Rightarrow> (let (d, effs) = app_webhook_listener n in (ok_json d, effs)))"

subsection \<open>The internal client\<close>

text \<open>
  \<^verbatim>\<open>httpx.AsyncClient(app=app, base_url=INTERNAL_BASE_URL)\<close> hands a POST to the route of
  the same process. A client is a function of the path, the JSON body and the timeout in
  seconds; it returns the response, or the exception the POST raised, and the effects of
  the handler it ran. \<open>leaf_post\<close> is the in-process client on the two routes the module
  posts to, which make no request of their own; it answers 404 on any other path.
\<close>

type_synonym client = "string \<Rightarrow> json \<Rightarrow> nat \<Rightarrow> (error + response) \<times> effect list"

definition not_found :: response where
  "not_found = \<lparr>status_code = 404, content = JsonBody (JObj [(''detail'', JStr ''Not Found'')])\<rparr>"

definition leaf_post :: client where
  "leaf_post path b timeout =
     (if path = ''/mock-gseal-api'' then
        (let (resp, effs) = post_mock_gseal_api b in (Inr resp, effs))
      else if path = ''/app-webhook-listener'' then
        (let (resp, effs) = post_app_webhook_listener b in (Inr resp, effs))
      else (Inr not_found, []))"

text \<open>
  \<^verbatim>\<open>response.raise_for_status()\<close> raises unless the status is a success, 200 to 299
  (httpx from version 0.25; older versions raise on 400 to 599 only);
  \<^verbatim>\<open>response.json()\<close> raises \<^verbatim>\<open>ValueError\<close> on a body that is not JSON.
\<close>

definition is_success :: "nat \<Rightarrow> bool" where
  "is_success s = (200 \<le> s \<and> s \<le> 299)"

definition raise_for_status :: "response \<Rightarrow> error + response" where
  "raise_for_status resp =
     (if is_success (status_code resp) then Inr resp
      else Inl (HTTPStatusError (status_code resp)))"

definition response_json :: "response \<Rightarrow> error + json" where
  "response_json resp =
     (case content resp of JsonBody j \<Rightarrow> Inr j | RawBody s \<Rightarrow> Inl ValueError)"

subsection \<open>\<^verbatim>\<open>dispatch_webhook\<close>\<close>

text \<open>
  The background coroutine: log, sleep one second, POST the payload to the listener with a
  10 second timeout, then read the response as JSON, falling back to its text when that
  raises \<^verbatim>\<open>ValueError\<close>, and log the status code and what was read. An exception of the
  POST is not caught. The coroutine returns \<^verbatim>\<open>None\<close>.
\<close>

definition dispatch_webhook_via :: "client \<Rightarrow> dict \<Rightarrow> (error + unit) \<times> effect list" where
  "dispatch_webhook_via cl wp =
     (let (res, effs) = cl ''/app-webhook-listener'' (JObj wp) 10;
          trace = [LogInfo ''Waiting 1 second before dispatching webhook...'' [],
                   Sleep 1,
                   HttpPost ''/app-webhook-listener'' (JObj wp) 10] @ effs
      in case res of
           Inl e \<Rightarrow> (Inl e, trace)
         | Inr resp \<Rightarrow>
             (let response_payload =
                    (case content resp of JsonBody j \<Rightarrow> ArgJson j | RawBody s \<Rightarrow> ArgText s)
              in (Inr (),
                  trace @ [LogInfo ''Webhook POST completed with status %s and payload %s''
                             [ArgStatus (status_code resp), response_payload]])))"

definition dispatch_webhook :: "dict \<Rightarrow> (error + unit) \<times> effect list" where
  "dispatch_webhook = dispatch_webhook_via leaf_post"

subsection \<open>\<^verbatim>\<open>start_test\<close>\<close>

text \<open>
  The handler of \<^verbatim>\<open>POST /start-test\<close>. \<^verbatim>\<open>payload or StartTestRequest()\<close> replaces an
  absent payload by the default one (a model instance is never falsy);
  \<open>start_test_payload_dict\<close> is the \<^verbatim>\<open>payload_dict\<close> of the source.
\<close>

definition start_test_payload_dict :: "StartTestRequest option \<Rightarrow> dict" where
  "start_test_payload_dict payload =
     (let p = (case payload of Some given \<Rightarrow> given | None \<Rightarrow> StartTestRequest_default)
      in model_to_dict (StartTestRequest_fields p))"

definition start_test_via ::
  "client \<Rightarrow> StartTestRequest option \<Rightarrow> (error + dict) \<times> effect list" where
  "start_test_via cl payload =
     (let payload_dict = start_test_payload_dict payload;
          (res, effs) = cl ''/mock-gseal-api'' (JObj payload_dict) 10;
          trace = [LogInfo ''Received /start-test request: %s'' [ArgJson (JObj payload_dict)],
                   HttpPost ''/mock-gseal-api'' (JObj payload_dict) 10] @ effs
      in case res of
           Inl e \<Rightarrow> (Inl e, trace)
         | Inr resp \<Rightarrow>
             (case raise_for_status resp of
                Inl e \<Rightarrow> (Inl e, trace)
              | Inr _ \<Rightarrow>
                  (case response_json resp of
                     Inl e \<Rightarrow> (Inl e, trace)
                   | Inr j \<Rightarrow>
                       (Inr [(''status'', JStr ''mock_request_dispatched''),
                             (''mock_api_response'', j)],
                        trace))))"

definition start_test :: "StartTestRequest option \<Rightarrow> (error + dict) \<times> effect list" where
  "start_test = start_test_via leaf_post"

text \<open>
  \<^verbatim>\<open>@app.post("/start-test")\<close>: the body is optional, and an absent or \<^verbatim>\<open>null\<close> body
  gives the handler \<^verbatim>\<open>None\<close> (\<open>parse_start_test_body\<close>, whose \<open>None\<close> is a rejected
  body). An exception of the handler is answered 500.
\<close>

definition internal_server_error :: response where
  "internal_server_error = \<lparr>status_code = 500, content = RawBody ''Internal Server Error''\<rparr>"

definition parse_start_test_body :: "json option \<Rightarrow> StartTestRequest option option" where
  "parse_start_test_body b =
     (case b of
        None \<Rightarrow> Some None
      | Some JNull \<Rightarrow> Some None
      | Some j \<Rightarrow> map_option Some (validate_StartTestRequest j))"

definition post_start_test_via :: "client \<Rightarrow> json option \<Rightarrow> response \<times> effect list" where
  "post_start_test_via cl b =
     (case parse_start_test_body b of
        None \<Rightarrow> (unprocessable, [])
      | Some payload \<Rightarrow>
          (case start_test_via cl payload of
             (Inl e, effs) \<Rightarrow> (internal_server_error, effs)
           | (Inr d, effs) \<Rightarrow> (ok_json d, effs)))"

definition post_start_test :: "json option \<Rightarrow> response \<times> effect list" where
  "post_start_test = post_start_test_via leaf_post"

text \<open>The in-process client on all three routes of the application.\<close>

definition app_post :: client where
  "app_post path b timeout =
     (if path = ''/start-test'' then
        (let (resp, effs) = post_start_test (Some b) in (Inr resp, effs))
      else leaf_post path b timeout)"

subsection \<open>Reading a trace\<close>

text \<open>The POSTs and the sleeps in a trace, and the payloads of the tasks it creates.\<close>

fun is_post :: "effect \<Rightarrow> bool" where
  "is_post (HttpPost path b t) = True"
| "is_post _ = False"

fun is_sleep :: "effect \<Rightarrow> bool" where
  "is_sleep (Sleep n) = True"
| "is_sleep _ = False"

fun created_tasks :: "effect list \<Rightarrow> dict list" where
  "created_tasks [] = []"
| "created_tasks (CreateTask wp # es) = wp # created_tasks es"
| "created_tasks (_ # es) = created_tasks es"

subsection \<open>Auxiliary definitions for the statements\<close>

text \<open>
  The request the Mock API receives from \<^verbatim>\<open>/start-test\<close>: the fields of the start
  request (the default one when the payload is absent), as a \<^verbatim>\<open>MockGsealRequest\<close>.
  Lemma \<open>validate_forwarded\<close> below shows that it is what the forwarded body validates to.
\<close>

definition forwarded_request :: "StartTestRequest option \<Rightarrow> MockGsealRequest" where
  "forwarded_request payload =
     (let p = (case payload of Some given \<Rightarrow> given | None \<Rightarrow> StartTestRequest_default)
      in \<lparr>MockGsealRequest.mock_payload = StartTestRequest.mock_payload p,
          MockGsealRequest.webhook_payload = StartTestRequest.webhook_payload p\<rparr>)"

text \<open>
  Two stub clients for the examples: one whose every answer is 503 with a text body, one
  whose every answer is 200 with a body that is not JSON.
\<close>

definition unavailable_client :: client where
  "unavailable_client path b timeout =
     (Inr \<lparr>status_code = 503, content = RawBody ''Service Unavailable''\<rparr>, [])"

definition plain_text_client :: client where
  "plain_text_client path b timeout =
     (Inr \<lparr>status_code = 200, content = RawBody ''ok''\<rparr>, [])"

section \<open>Properties\<close>

subsection \<open>Routes on valid bodies\<close>

lemma post_mock_gseal_api_valid:
  "validate_MockGsealRequest b = Some r \<Longrightarrow>
   post_mock_gseal_api b = (ok_json (fst (mock_gseal_api r)), snd (mock_gseal_api r))"
  by (simp add: post_mock_gseal_api_def split: prod.splits)

lemma post_app_webhook_listener_valid:
  "validate_WebhookNotification b = Some n \<Longrightarrow>
   post_app_webhook_listener b =
     (ok_json (fst (app_webhook_listener n)), snd (app_webhook_listener n))"
  by (simp add: post_app_webhook_listener_def split: prod.splits)

lemma field_str_Some_iff: "field_str (Some v) dflt = Some e \<longleftrightarrow> v = JStr e"
  by (cases v) auto

lemma field_dict_Some_iff: "field_dict (Some v) dflt = Some d \<longleftrightarrow> v = JObj d"
  by (cases v) auto

lemma validate_WebhookNotification_obj:
  "validate_WebhookNotification (JObj kvs) = Some n \<longleftrightarrow>
     field_str (map_of kvs ''event'') ''mock.document.completed'' = Some (event n) \<and>
     field_dict (map_of kvs ''data'') [] = Some (data n)"
  by (cases n) (auto simp: validate_WebhookNotification_def WebhookNotification_default_def
      split: option.splits)

lemma app_webhook_listener_returns:
  "fst (app_webhook_listener n) =
     [(''status'', JStr ''received''),
      (''payload'', JObj [(''event'', JStr (event n)), (''data'', JObj (data n))])]"
  by (simp add: app_webhook_listener_def WebhookNotification_fields_def Let_def)

subsection \<open>The Mock API's payload\<close>

text \<open>
  C1. For every request whose \<^verbatim>\<open>webhook_payload\<close> is \<^verbatim>\<open>None\<close>, the Mock API returns the
  synthesised payload: event \<^verbatim>\<open>mock.document.completed\<close>, and data with status
  \<^verbatim>\<open>completed\<close> and the request's \<^verbatim>\<open>mock_payload\<close> as \<^verbatim>\<open>original_payload\<close>. The
  witness is the request with \<^verbatim>\<open>mock_payload = {"document_id": "doc-1"}\<close>.
\<close>

theorem mock_gseal_api_synthesises_payload:
  "MockGsealRequest.webhook_payload r = None \<Longrightarrow>
   fst (mock_gseal_api r) =
     [(''status'', JStr ''webhook_scheduled''),
      (''webhook_payload'',
       JObj [(''event'', JStr ''mock.document.completed''),
             (''data'', JObj [(''status'', JStr ''completed''),
                              (''original_payload'', JObj (MockGsealRequest.mock_payload r))])])]"
  by (simp add: mock_gseal_api_def Let_def)

theorem mock_gseal_api_synthesises_payload_witness:
  "MockGsealRequest.webhook_payload
     \<lparr>MockGsealRequest.mock_payload = [(''document_id'', JStr ''doc-1'')],
      MockGsealRequest.webhook_payload = None\<rparr> = None \<and>
   fst (mock_gseal_api
     \<lparr>MockGsealRequest.mock_payload = [(''document_id'', JStr ''doc-1'')],
      MockGsealRequest.webhook_payload = None\<rparr>) =
     [(''status'', JStr ''webhook_scheduled''),
      (''webhook_payload'',
       JObj [(''event'', JStr ''mock.document.completed''),
             (''data'', JObj [(''status'', JStr ''completed''),
                              (''original_payload'', JObj [(''document_id'', JStr ''doc-1'')])])])]"
  using mock_gseal_api_synthesises_payload
    [of "\<lparr>MockGsealRequest.mock_payload = [(''document_id'', JStr ''doc-1'')],
          MockGsealRequest.webhook_payload = None\<rparr>"]
  by simp

text \<open>
  C3. For every request that supplies a \<^verbatim>\<open>webhook_payload\<close> mapping, the Mock API returns
  that mapping as its \<^verbatim>\<open>webhook_payload\<close>, whatever the \<^verbatim>\<open>mock_payload\<close> is.
\<close>

theorem mock_gseal_api_override_verbatim:
  "MockGsealRequest.webhook_payload r = Some wp \<Longrightarrow>
   fst (mock_gseal_api r) =
     [(''status'', JStr ''webhook_scheduled''), (''webhook_payload'', JObj wp)]"
  by (simp add: mock_gseal_api_def Let_def)

theorem mock_gseal_api_override_verbatim_witness:
  "MockGsealRequest.webhook_payload
     \<lparr>MockGsealRequest.mock_payload = [(''document_id'', JStr ''doc-1'')],
      MockGsealRequest.webhook_payload = Some [(''event'', JStr ''custom''), (''n'', JNum 7)]\<rparr>
     = Some [(''event'', JStr ''custom''), (''n'', JNum 7)] \<and>
   fst (mock_gseal_api
     \<lparr>MockGsealRequest.mock_payload = [(''document_id'', JStr ''doc-1'')],
      MockGsealRequest.webhook_payload = Some [(''event'', JStr ''custom''), (''n'', JNum 7)]\<rparr>) =
     [(''status'', JStr ''webhook_scheduled''),
      (''webhook_payload'', JObj [(''event'', JStr ''custom''), (''n'', JNum 7)])]"
  using mock_gseal_api_override_verbatim
    [of "\<lparr>MockGsealRequest.mock_payload = [(''document_id'', JStr ''doc-1'')],
          MockGsealRequest.webhook_payload = Some [(''event'', JStr ''custom''), (''n'', JNum 7)]\<rparr>"
        "[(''event'', JStr ''custom''), (''n'', JNum 7)]"]
  by simp

text \<open>
  C10. The override test is \<^verbatim>\<open>is not None\<close>, so the empty mapping is an override: a
  body with \<^verbatim>\<open>"webhook_payload": {}\<close> validates to a request holding the empty mapping,
  and for every \<^verbatim>\<open>mock_payload\<close> the Mock API returns \<^verbatim>\<open>webhook_payload = {}\<close> and
  schedules exactly one dispatch, of the empty mapping.
\<close>

theorem mock_gseal_api_empty_override:
  "validate_MockGsealRequest (JObj [(''mock_payload'', JObj mp), (''webhook_payload'', JObj [])]) =
     Some \<lparr>MockGsealRequest.mock_payload = mp, MockGsealRequest.webhook_payload = Some []\<rparr> \<and>
   mock_gseal_api \<lparr>MockGsealRequest.mock_payload = mp,
                   MockGsealRequest.webhook_payload = Some []\<rparr> =
     ([(''status'', JStr ''webhook_scheduled''), (''webhook_payload'', JObj [])],
      [LogInfo ''Mock GSeal API received payload: %s''
         [ArgJson (JObj [(''mock_payload'', JObj mp), (''webhook_payload'', JObj [])])],
       CreateTask []])"
  by (simp add: mock_gseal_api_def Let_def MockGsealRequest_fields_def
      validate_MockGsealRequest_def)

subsection \<open>The listener's echo\<close>

text \<open>
  C2, as stated, fails: the body \<^verbatim>\<open>{}\<close> is accepted, and the payload returned for it is
  the notification with its defaults, not the body that was posted.
\<close>

theorem listener_echo_raw_counterexample:
  "fst (post_app_webhook_listener (JObj [])) =
     \<lparr>status_code = 200,
      content = JsonBody (JObj
        [(''status'', JStr ''received''),
         (''payload'', JObj [(''event'', JStr ''mock.document.completed''),
                             (''data'', JObj [])])])\<rparr> \<and>
   fst (post_app_webhook_listener (JObj [])) \<noteq>
     \<lparr>status_code = 200,
      content = JsonBody (JObj [(''status'', JStr ''received''), (''payload'', JObj [])])\<rparr>"
  by (simp add: post_app_webhook_listener_def validate_WebhookNotification_def
      WebhookNotification_default_def app_webhook_listener_def WebhookNotification_fields_def
      ok_json_def Let_def)

text \<open>
  C2, amended. The handler returns status \<^verbatim>\<open>received\<close> with the notification it was
  given as payload: its \<^verbatim>\<open>event\<close> and its \<^verbatim>\<open>data\<close>, unchanged. For every body the
  route accepts (answers 200), the answer is that dictionary, as JSON, for the notification
  the body validates to. When the keys of the body are exactly \<^verbatim>\<open>event\<close> and
  \<^verbatim>\<open>data\<close>, in any order, the payload the handler returns is the same mapping as the
  body. The witness is the body \<^verbatim>\<open>{"event": "x", "data": {"a": 1}}\<close>, whose answer it
  gives in full, and the same body with \<^verbatim>\<open>data\<close> first.
\<close>

theorem listener_echoes_validated_notification:
  "fst (app_webhook_listener n) =
     [(''status'', JStr ''received''),
      (''payload'', JObj [(''event'', JStr (event n)), (''data'', JObj (data n))])] \<and>
   (status_code (fst (post_app_webhook_listener b)) = 200 \<longrightarrow>
      (\<exists>v. validate_WebhookNotification b = Some v \<and>
           fst (post_app_webhook_listener b) = ok_json (fst (app_webhook_listener v)))) \<and>
   (validate_WebhookNotification (JObj kvs) = Some m \<and>
    set (map fst kvs) = {''event'', ''data''} \<longrightarrow>
      (\<exists>pl. fst (app_webhook_listener m) =
              [(''status'', JStr ''received''), (''payload'', JObj pl)] \<and>
            map_of pl = map_of kvs))"
proof (intro conjI impI)
  show "fst (app_webhook_listener n) =
     [(''status'', JStr ''received''),
      (''payload'', JObj [(''event'', JStr (event n)), (''data'', JObj (data n))])]"
    by (rule app_webhook_listener_returns)
next
  assume ok: "status_code (fst (post_app_webhook_listener b)) = 200"
  show "\<exists>v. validate_WebhookNotification b = Some v \<and>
           fst (post_app_webhook_listener b) = ok_json (fst (app_webhook_listener v))"
  proof (cases "validate_WebhookNotification b")
    case None
    then have "status_code (fst (post_app_webhook_listener b)) = 422"
      by (simp add: post_app_webhook_listener_def unprocessable_def)
    with ok show ?thesis by simp
  next
    case (Some v)
    then show ?thesis by (simp add: post_app_webhook_listener_valid)
  qed
next
  assume a: "validate_WebhookNotification (JObj kvs) = Some m \<and>
    set (map fst kvs) = {''event'', ''data''}"
  then have keys: "fst ` set kvs = {''event'', ''data''}" by simp
  from keys have "map_of kvs ''event'' \<noteq> None" and "map_of kvs ''data'' \<noteq> None"
    by (simp_all add: map_of_eq_None_iff)
  then obtain x y where x: "map_of kvs ''event'' = Some x" and y: "map_of kvs ''data'' = Some y"
    by auto
  from a x y have ev: "map_of kvs ''event'' = Some (JStr (event m))"
    and da: "map_of kvs ''data'' = Some (JObj (data m))"
    by (simp_all add: validate_WebhookNotification_obj field_str_Some_iff field_dict_Some_iff)
  have other: "map_of kvs k = None" if "k \<noteq> ''event''" "k \<noteq> ''data''" for k
    using that keys by (simp add: map_of_eq_None_iff)
  have "map_of [(''event'', JStr (event m)), (''data'', JObj (data m))] = map_of kvs"
  proof
    fix k
    show "map_of [(''event'', JStr (event m)), (''data'', JObj (data m))] k = map_of kvs k"
      using ev da other [of k] by (cases "k = ''event''"; cases "k = ''data''") simp_all
  qed
  then show "\<exists>pl. fst (app_webhook_listener m) =
              [(''status'', JStr ''received''), (''payload'', JObj pl)] \<and>
            map_of pl = map_of kvs"
    by (simp add: app_webhook_listener_returns)
qed

theorem listener_echoes_validated_notification_witness:
  "status_code (fst (post_app_webhook_listener
     (JObj [(''event'', JStr ''x''), (''data'', JObj [(''a'', JNum 1)])]))) = 200 \<and>
   fst (post_app_webhook_listener
          (JObj [(''event'', JStr ''x''), (''data'', JObj [(''a'', JNum 1)])])) =
     \<lparr>status_code = 200,
      content = JsonBody (JObj
        [(''status'', JStr ''received''),
         (''payload'', JObj [(''event'', JStr ''x''), (''data'', JObj [(''a'', JNum 1)])])])\<rparr> \<and>
   validate_WebhookNotification
     (JObj [(''data'', JObj [(''a'', JNum 1)]), (''event'', JStr ''x'')]) =
     Some \<lparr>event = ''x'', data = [(''a'', JNum 1)]\<rparr> \<and>
   set (map fst [(''data'', JObj [(''a'', JNum 1)]), (''event'', JStr ''x'')]) =
     {''event'', ''data''} \<and>
   (\<exists>pl. fst (app_webhook_listener \<lparr>event = ''x'', data = [(''a'', JNum 1)]\<rparr>) =
           [(''status'', JStr ''received''), (''payload'', JObj pl)] \<and>
         map_of pl = map_of [(''data'', JObj [(''a'', JNum 1)]), (''event'', JStr ''x'')])"
proof -
  have s: "status_code (fst (post_app_webhook_listener
     (JObj [(''event'', JStr ''x''), (''data'', JObj [(''a'', JNum 1)])]))) = 200"
    by (simp add: post_app_webhook_listener_def validate_WebhookNotification_def
        app_webhook_listener_def ok_json_def Let_def)
  have v1: "validate_WebhookNotification
     (JObj [(''event'', JStr ''x''), (''data'', JObj [(''a'', JNum 1)])]) =
     Some \<lparr>event = ''x'', data = [(''a'', JNum 1)]\<rparr>"
    by (simp add: validate_WebhookNotification_def)
  have v2: "validate_WebhookNotification
     (JObj [(''data'', JObj [(''a'', JNum 1)]), (''event'', JStr ''x'')]) =
     Some \<lparr>event = ''x'', data = [(''a'', JNum 1)]\<rparr>"
    by (simp add: validate_WebhookNotification_def)
  have k: "set (map fst [(''data'', JObj [(''a'', JNum 1)]), (''event'', JStr ''x'')]) =
     {''event'', ''data''}"
    by auto
  note t = listener_echoes_validated_notification
    [of "\<lparr>event = ''x'', data = [(''a'', JNum 1)]\<rparr>"
        "JObj [(''event'', JStr ''x''), (''data'', JObj [(''a'', JNum 1)])]"
        "[(''data'', JObj [(''a'', JNum 1)]), (''event'', JStr ''x'')]"
        "\<lparr>event = ''x'', data = [(''a'', JNum 1)]\<rparr>"]
  from t s v1 have r: "fst (post_app_webhook_listener
          (JObj [(''event'', JStr ''x''), (''data'', JObj [(''a'', JNum 1)])])) =
     \<lparr>status_code = 200,
      content = JsonBody (JObj
        [(''status'', JStr ''received''),
         (''payload'', JObj [(''event'', JStr ''x''), (''data'', JObj [(''a'', JNum 1)])])])\<rparr>"
    by (simp add: ok_json_def)
  from t v2 k have e: "\<exists>pl. fst (app_webhook_listener \<lparr>event = ''x'', data = [(''a'', JNum 1)]\<rparr>) =
           [(''status'', JStr ''received''), (''payload'', JObj pl)] \<and>
         map_of pl = map_of [(''data'', JObj [(''a'', JNum 1)]), (''event'', JStr ''x'')]"
    by blast
  from s r v2 k e show ?thesis by blast
qed

text \<open>
  C9. The echo is the validated notification, not the raw body. An object is accepted
  exactly when its \<^verbatim>\<open>event\<close> is missing or a string and its \<^verbatim>\<open>data\<close> is missing or
  a mapping, and the payload of the answer then has exactly the keys \<^verbatim>\<open>event\<close> and
  \<^verbatim>\<open>data\<close> (any other key of the body is dropped): the event is
  \<^verbatim>\<open>mock.document.completed\<close> when the body has none and the body's own otherwise, the
  data is the empty mapping when the body has none and the body's own otherwise. The
  witnesses are a body with two other keys and neither field, and a body with an event, no
  data and one other key.
\<close>

theorem listener_echo_is_normalised:
  "(status_code (fst (post_app_webhook_listener (JObj kvs))) = 200 \<longleftrightarrow>
      (map_of kvs ''event'' = None \<or> (\<exists>s. map_of kvs ''event'' = Some (JStr s))) \<and>
      (map_of kvs ''data'' = None \<or> (\<exists>d. map_of kvs ''data'' = Some (JObj d)))) \<and>
   (status_code (fst (post_app_webhook_listener (JObj kvs))) = 200 \<longrightarrow>
      (\<exists>e d. fst (post_app_webhook_listener (JObj kvs)) =
               ok_json [(''status'', JStr ''received''),
                        (''payload'', JObj [(''event'', JStr e), (''data'', JObj d)])] \<and>
             (map_of kvs ''event'' = None \<and> e = ''mock.document.completed'' \<or>
              map_of kvs ''event'' = Some (JStr e)) \<and>
             (map_of kvs ''data'' = None \<and> d = [] \<or> map_of kvs ''data'' = Some (JObj d))))"
proof -
  have rej: "status_code (fst (post_app_webhook_listener (JObj kvs))) = 422"
    if "validate_WebhookNotification (JObj kvs) = None"
    using that by (simp add: post_app_webhook_listener_def unprocessable_def)
  have acc: "fst (post_app_webhook_listener (JObj kvs)) =
      ok_json [(''status'', JStr ''received''),
               (''payload'', JObj [(''event'', JStr (event n)), (''data'', JObj (data n))])]"
    if "validate_WebhookNotification (JObj kvs) = Some n" for n
    using that by (simp add: post_app_webhook_listener_valid app_webhook_listener_returns)
  show ?thesis
  proof (cases "validate_WebhookNotification (JObj kvs)")
    case None
    have "validate_WebhookNotification (JObj kvs) \<noteq> None"
      if "(map_of kvs ''event'' = None \<or> (\<exists>s. map_of kvs ''event'' = Some (JStr s))) \<and>
          (map_of kvs ''data'' = None \<or> (\<exists>d. map_of kvs ''data'' = Some (JObj d)))"
      using that by (auto simp: validate_WebhookNotification_def)
    with None have "\<not> ((map_of kvs ''event'' = None \<or> (\<exists>s. map_of kvs ''event'' = Some (JStr s))) \<and>
      (map_of kvs ''data'' = None \<or> (\<exists>d. map_of kvs ''data'' = Some (JObj d))))"
      by blast
    with rej [OF None] show ?thesis by simp
  next
    case (Some n)
    then have e: "map_of kvs ''event'' = None \<and> event n = ''mock.document.completed'' \<or>
        map_of kvs ''event'' = Some (JStr (event n))"
      and d: "map_of kvs ''data'' = None \<and> data n = [] \<or> map_of kvs ''data'' = Some (JObj (data n))"
      by (cases "map_of kvs ''event''"; cases "map_of kvs ''data''";
          simp add: validate_WebhookNotification_obj field_str_Some_iff field_dict_Some_iff)+
    from acc [OF Some] e d show ?thesis
      by (auto simp: ok_json_def)
  qed
qed

theorem listener_echo_is_normalised_witness:
  "map_of [(''source'', JStr ''gseal''), (''attempt'', JNum 2)] ''event'' = None \<and>
   map_of [(''source'', JStr ''gseal''), (''attempt'', JNum 2)] ''data'' = None \<and>
   fst (post_app_webhook_listener (JObj [(''source'', JStr ''gseal''), (''attempt'', JNum 2)])) =
     \<lparr>status_code = 200,
      content = JsonBody (JObj
        [(''status'', JStr ''received''),
         (''payload'', JObj [(''event'', JStr ''mock.document.completed''),
                             (''data'', JObj [])])])\<rparr> \<and>
   map_of [(''event'', JStr ''x''), (''trace'', JBool True)] ''event'' = Some (JStr ''x'') \<and>
   map_of [(''event'', JStr ''x''), (''trace'', JBool True)] ''data'' = None \<and>
   fst (post_app_webhook_listener (JObj [(''event'', JStr ''x''), (''trace'', JBool True)])) =
     \<lparr>status_code = 200,
      content = JsonBody (JObj
        [(''status'', JStr ''received''),
         (''payload'', JObj [(''event'', JStr ''x''), (''data'', JObj [])])])\<rparr>"
proof -
  have a: "map_of [(''source'', JStr ''gseal''), (''attempt'', JNum 2)] ''event'' = None"
    and b: "map_of [(''source'', JStr ''gseal''), (''attempt'', JNum 2)] ''data'' = None"
    and c: "map_of [(''event'', JStr ''x''), (''trace'', JBool True)] ''event'' = Some (JStr ''x'')"
    and d: "map_of [(''event'', JStr ''x''), (''trace'', JBool True)] ''data'' = None"
    by simp_all
  from listener_echo_is_normalised [of "[(''source'', JStr ''gseal''), (''attempt'', JNum 2)]"] a b
  have r1: "fst (post_app_webhook_listener
                   (JObj [(''source'', JStr ''gseal''), (''attempt'', JNum 2)])) =
     \<lparr>status_code = 200,
      content = JsonBody (JObj
        [(''status'', JStr ''received''),
         (''payload'', JObj [(''event'', JStr ''mock.document.completed''),
                             (''data'', JObj [])])])\<rparr>"
    by (auto simp: ok_json_def)
  from listener_echo_is_normalised [of "[(''event'', JStr ''x''), (''trace'', JBool True)]"] c d
  have r2: "fst (post_app_webhook_listener
                   (JObj [(''event'', JStr ''x''), (''trace'', JBool True)])) =
     \<lparr>status_code = 200,
      content = JsonBody (JObj
        [(''status'', JStr ''received''),
         (''payload'', JObj [(''event'', JStr ''x''), (''data'', JObj [])])])\<rparr>"
    by (auto simp: ok_json_def)
  from a b c d r1 r2 show ?thesis by blast
qed

subsection \<open>The Test Trigger\<close>

lemma start_test_payload_dict_cases:
  "start_test_payload_dict payload =
     (let p = (case payload of Some given \<Rightarrow> given | None \<Rightarrow> StartTestRequest_default)
      in case StartTestRequest.webhook_payload p of
           None \<Rightarrow> [(''mock_payload'', JObj (StartTestRequest.mock_payload p))]
         | Some wp \<Rightarrow> [(''mock_payload'', JObj (StartTestRequest.mock_payload p)),
                        (''webhook_payload'', JObj wp)])"
  by (simp add: start_test_payload_dict_def StartTestRequest_fields_def Let_def
      split: option.splits)

lemma validate_forwarded:
  "validate_MockGsealRequest (JObj (start_test_payload_dict payload)) =
     Some (forwarded_request payload)"
  by (simp add: start_test_payload_dict_cases validate_MockGsealRequest_def
      forwarded_request_def Let_def split: option.splits)

lemma leaf_post_mock:
  "leaf_post ''/mock-gseal-api'' (JObj (start_test_payload_dict payload)) t =
     (Inr (ok_json (fst (mock_gseal_api (forwarded_request payload)))),
      snd (mock_gseal_api (forwarded_request payload)))"
  by (simp add: leaf_post_def post_mock_gseal_api_valid [OF validate_forwarded])

lemma start_test_eq:
  "start_test payload =
     (Inr [(''status'', JStr ''mock_request_dispatched''),
           (''mock_api_response'', JObj (fst (mock_gseal_api (forwarded_request payload))))],
      [LogInfo ''Received /start-test request: %s''
         [ArgJson (JObj (start_test_payload_dict payload))],
       HttpPost ''/mock-gseal-api'' (JObj (start_test_payload_dict payload)) 10]
      @ snd (mock_gseal_api (forwarded_request payload)))"
  by (simp add: start_test_def start_test_via_def leaf_post_mock Let_def ok_json_def
      raise_for_status_def is_success_def response_json_def)

text \<open>The handler posts to the Mock API only, so the client on all three routes gives the same.\<close>

lemma start_test_via_app_post: "start_test_via app_post = start_test"
  by (simp add: start_test_def start_test_via_def app_post_def fun_eq_iff)

text \<open>
  C6. For every start request, the absent one included, the Test Trigger returns status
  \<^verbatim>\<open>mock_request_dispatched\<close> with the Mock API's response to the forwarded request as
  \<^verbatim>\<open>mock_api_response\<close>, and every body the route accepts is answered 200 with that
  dictionary. The witnesses are the absent body and the body \<^verbatim>\<open>{}\<close>.
\<close>

theorem start_test_returns_mock_response:
  "fst (start_test payload) =
     Inr [(''status'', JStr ''mock_request_dispatched''),
          (''mock_api_response'', JObj (fst (mock_gseal_api (forwarded_request payload))))] \<and>
   (parse_start_test_body b = Some payload \<longrightarrow>
    fst (post_start_test b) =
      \<lparr>status_code = 200,
       content = JsonBody (JObj
         [(''status'', JStr ''mock_request_dispatched''),
          (''mock_api_response'',
           JObj (fst (mock_gseal_api (forwarded_request payload))))])\<rparr>)"
  using start_test_eq [of payload]
  by (simp add: post_start_test_def post_start_test_via_def start_test_def ok_json_def)

theorem start_test_returns_mock_response_witness:
  "parse_start_test_body None = Some None \<and>
   parse_start_test_body (Some (JObj [])) = Some (Some StartTestRequest_default) \<and>
   fst (post_start_test None) =
     \<lparr>status_code = 200,
      content = JsonBody (JObj
        [(''status'', JStr ''mock_request_dispatched''),
         (''mock_api_response'',
          JObj [(''status'', JStr ''webhook_scheduled''),
                (''webhook_payload'',
                 JObj [(''event'', JStr ''mock.document.completed''),
                       (''data'',
                        JObj [(''status'', JStr ''completed''),
                              (''original_payload'',
                               JObj [(''document_id'', JStr ''demo-document'')])])])])])\<rparr> \<and>
   fst (post_start_test (Some (JObj []))) = fst (post_start_test None)"
proof -
  have p1: "parse_start_test_body None = Some None"
    by (simp add: parse_start_test_body_def)
  have p2: "parse_start_test_body (Some (JObj [])) = Some (Some StartTestRequest_default)"
    by (simp add: parse_start_test_body_def validate_StartTestRequest_def
        StartTestRequest_default_def)
  have f: "forwarded_request (Some StartTestRequest_default) = forwarded_request None"
    by (simp add: forwarded_request_def)
  have m: "fst (mock_gseal_api (forwarded_request None)) =
     [(''status'', JStr ''webhook_scheduled''),
      (''webhook_payload'',
       JObj [(''event'', JStr ''mock.document.completed''),
             (''data'',
              JObj [(''status'', JStr ''completed''),
                    (''original_payload'',
                     JObj [(''document_id'', JStr ''demo-document'')])])])]"
    by (simp add: mock_gseal_api_def forwarded_request_def StartTestRequest_default_def Let_def)
  from start_test_returns_mock_response [of None None]
       start_test_returns_mock_response [of "Some StartTestRequest_default" "Some (JObj [])"]
       p1 p2 f m
  show ?thesis by simp
qed

text \<open>
  C4. Whenever the internal POST to the Mock API answers with a status that is not a
  success, the Test Trigger raises the status error of that response instead of returning
  its dictionary, and the route answers 500. The witness is a client that answers 503.
\<close>

theorem start_test_propagates_failure:
  assumes "cl ''/mock-gseal-api'' (JObj (start_test_payload_dict payload)) 10 = (Inr resp, effs)"
    and "\<not> is_success (status_code resp)"
  shows "fst (start_test_via cl payload) = Inl (HTTPStatusError (status_code resp)) \<and>
         (parse_start_test_body b = Some payload \<longrightarrow>
            fst (post_start_test_via cl b) = internal_server_error)"
  using assms
  by (simp add: start_test_via_def post_start_test_via_def Let_def raise_for_status_def)

theorem start_test_propagates_failure_witness:
  "unavailable_client ''/mock-gseal-api'' (JObj (start_test_payload_dict None)) 10 =
     (Inr \<lparr>status_code = 503, content = RawBody ''Service Unavailable''\<rparr>, []) \<and>
   \<not> is_success 503 \<and>
   parse_start_test_body None = Some None \<and>
   fst (start_test_via unavailable_client None) = Inl (HTTPStatusError 503) \<and>
   fst (post_start_test_via unavailable_client None) =
     \<lparr>status_code = 500, content = RawBody ''Internal Server Error''\<rparr>"
proof -
  have c: "unavailable_client ''/mock-gseal-api'' (JObj (start_test_payload_dict None)) 10 =
     (Inr \<lparr>status_code = 503, content = RawBody ''Service Unavailable''\<rparr>, [])"
    by (simp add: unavailable_client_def)
  have n: "\<not> is_success (status_code \<lparr>status_code = 503, content = RawBody ''Service Unavailable''\<rparr>)"
    by (simp add: is_success_def)
  have p: "parse_start_test_body None = Some None"
    by (simp add: parse_start_test_body_def)
  from start_test_propagates_failure
    [where cl = unavailable_client and payload = None and b = None, OF c n] c n p
  show ?thesis by (simp add: internal_server_error_def)
qed

text \<open>
  C8. The body the Test Trigger posts to the Mock API is the start request without its
  \<^verbatim>\<open>None\<close> fields: \<^verbatim>\<open>mock_payload\<close> is always a key of it, with
  \<^verbatim>\<open>{"document_id": "demo-document"}\<close> when no payload was given; when
  \<^verbatim>\<open>webhook_payload\<close> is \<^verbatim>\<open>None\<close>, \<^verbatim>\<open>mock_payload\<close> is the only key, and a
  \<^verbatim>\<open>webhook_payload\<close> that is given is forwarded.
\<close>

theorem start_test_omits_unset_fields:
  "take 2 (snd (start_test_via cl payload)) =
     [LogInfo ''Received /start-test request: %s''
        [ArgJson (JObj (start_test_payload_dict payload))],
      HttpPost ''/mock-gseal-api'' (JObj (start_test_payload_dict payload)) 10] \<and>
   map_of (start_test_payload_dict payload) ''mock_payload'' \<noteq> None \<and>
   start_test_payload_dict None =
     [(''mock_payload'', JObj [(''document_id'', JStr ''demo-document'')])] \<and>
   (StartTestRequest.webhook_payload p = None \<longrightarrow>
      start_test_payload_dict (Some p) =
        [(''mock_payload'', JObj (StartTestRequest.mock_payload p))] \<and>
      map_of (start_test_payload_dict (Some p)) ''webhook_payload'' = None) \<and>
   (StartTestRequest.webhook_payload q = Some wp \<longrightarrow>
      start_test_payload_dict (Some q) =
        [(''mock_payload'', JObj (StartTestRequest.mock_payload q)),
         (''webhook_payload'', JObj wp)])"
proof -
  have "take 2 (snd (start_test_via cl payload)) =
     [LogInfo ''Received /start-test request: %s''
        [ArgJson (JObj (start_test_payload_dict payload))],
      HttpPost ''/mock-gseal-api'' (JObj (start_test_payload_dict payload)) 10]"
    by (simp add: start_test_via_def Let_def split: prod.splits sum.splits)
  moreover have "map_of (start_test_payload_dict payload) ''mock_payload'' \<noteq> None"
    by (simp add: start_test_payload_dict_cases Let_def split: option.splits)
  ultimately show ?thesis
    by (simp add: start_test_payload_dict_cases StartTestRequest_default_def)
qed

theorem start_test_omits_unset_fields_witness:
  "StartTestRequest.webhook_payload
     \<lparr>StartTestRequest.mock_payload = [(''document_id'', JStr ''doc-1'')],
      StartTestRequest.webhook_payload = None\<rparr> = None \<and>
   start_test_payload_dict
     (Some \<lparr>StartTestRequest.mock_payload = [(''document_id'', JStr ''doc-1'')],
            StartTestRequest.webhook_payload = None\<rparr>) =
     [(''mock_payload'', JObj [(''document_id'', JStr ''doc-1'')])] \<and>
   StartTestRequest.webhook_payload
     \<lparr>StartTestRequest.mock_payload = [],
      StartTestRequest.webhook_payload = Some [(''event'', JStr ''custom'')]\<rparr> =
     Some [(''event'', JStr ''custom'')] \<and>
   start_test_payload_dict
     (Some \<lparr>StartTestRequest.mock_payload = [],
            StartTestRequest.webhook_payload = Some [(''event'', JStr ''custom'')]\<rparr>) =
     [(''mock_payload'', JObj []), (''webhook_payload'', JObj [(''event'', JStr ''custom'')])] \<and>
   take 2 (snd (start_test_via leaf_post None)) =
     [LogInfo ''Received /start-test request: %s''
        [ArgJson (JObj [(''mock_payload'', JObj [(''document_id'', JStr ''demo-document'')])])],
      HttpPost ''/mock-gseal-api''
        (JObj [(''mock_payload'', JObj [(''document_id'', JStr ''demo-document'')])]) 10]"
  using start_test_omits_unset_fields
    [of leaf_post None
        "\<lparr>StartTestRequest.mock_payload = [(''document_id'', JStr ''doc-1'')],
          StartTestRequest.webhook_payload = None\<rparr>"
        "\<lparr>StartTestRequest.mock_payload = [],
          StartTestRequest.webhook_payload = Some [(''event'', JStr ''custom'')]\<rparr>"
        "[(''event'', JStr ''custom'')]"]
  by simp

subsection \<open>The Dispatcher\<close>

lemma leaf_post_listener_effects:
  "leaf_post ''/app-webhook-listener'' b t = (res, effs) \<Longrightarrow>
   (\<exists>resp. res = Inr resp) \<and> filter is_post effs = [] \<and> filter is_sleep effs = []"
  by (auto simp: leaf_post_def post_app_webhook_listener_def app_webhook_listener_def Let_def
      split: option.splits prod.splits)

text \<open>
  C5. Every call of the Mock API creates exactly one dispatch task, for the payload its
  response returns. That task logs, sleeps one second, and then makes exactly one POST, to
  \<^verbatim>\<open>/app-webhook-listener\<close> with that payload as the body (timeout 10 seconds); it
  sleeps nowhere else. The delay is the sleep event of the trace: wall-clock time is not
  part of the model.
\<close>

theorem dispatch_exactly_one_post:
  "\<exists>wp. fst (mock_gseal_api r) =
           [(''status'', JStr ''webhook_scheduled''), (''webhook_payload'', JObj wp)] \<and>
         created_tasks (snd (mock_gseal_api r)) = [wp] \<and>
         take 3 (snd (dispatch_webhook wp)) =
           [LogInfo ''Waiting 1 second before dispatching webhook...'' [],
            Sleep 1,
            HttpPost ''/app-webhook-listener'' (JObj wp) 10] \<and>
         filter is_post (snd (dispatch_webhook wp)) =
           [HttpPost ''/app-webhook-listener'' (JObj wp) 10] \<and>
         filter is_sleep (snd (dispatch_webhook wp)) = [Sleep 1]"
proof -
  obtain wp where wp: "mock_gseal_api r =
      ([(''status'', JStr ''webhook_scheduled''), (''webhook_payload'', JObj wp)],
       [LogInfo ''Mock GSeal API received payload: %s''
          [ArgJson (JObj (model_to_dict (MockGsealRequest_fields r)))],
        CreateTask wp])"
    by (simp add: mock_gseal_api_def Let_def)
  obtain res effs where cl: "leaf_post ''/app-webhook-listener'' (JObj wp) 10 = (res, effs)"
    by (cases "leaf_post ''/app-webhook-listener'' (JObj wp) 10")
  from leaf_post_listener_effects [OF cl] obtain resp where
    res: "res = Inr resp" and np: "filter is_post effs = []" and ns: "filter is_sleep effs = []"
    by blast
  have "snd (dispatch_webhook wp) =
     [LogInfo ''Waiting 1 second before dispatching webhook...'' [],
      Sleep 1,
      HttpPost ''/app-webhook-listener'' (JObj wp) 10] @ effs @
     [LogInfo ''Webhook POST completed with status %s and payload %s''
        [ArgStatus (status_code resp),
         (case content resp of JsonBody j \<Rightarrow> ArgJson j | RawBody s \<Rightarrow> ArgText s)]]"
    using cl res by (simp add: dispatch_webhook_def dispatch_webhook_via_def Let_def)
  with wp np ns show ?thesis by simp
qed

text \<open>
  C7. When the listener's response body is not JSON, the Dispatcher takes the response
  text instead, logs the status code with that text, and returns normally: the parse
  failure raises nothing. The witness is a client that answers 200 with the text
  \<^verbatim>\<open>ok\<close>.
\<close>

theorem dispatch_webhook_falls_back_to_text:
  assumes "cl ''/app-webhook-listener'' (JObj wp) 10 = (Inr resp, effs)"
    and "content resp = RawBody s"
  shows "dispatch_webhook_via cl wp =
     (Inr (),
      [LogInfo ''Waiting 1 second before dispatching webhook...'' [],
       Sleep 1,
       HttpPost ''/app-webhook-listener'' (JObj wp) 10] @ effs @
      [LogInfo ''Webhook POST completed with status %s and payload %s''
         [ArgStatus (status_code resp), ArgText s]])"
  using assms by (simp add: dispatch_webhook_via_def Let_def)

theorem dispatch_webhook_falls_back_to_text_witness:
  "plain_text_client ''/app-webhook-listener'' (JObj [(''event'', JStr ''x'')]) 10 =
     (Inr \<lparr>status_code = 200, content = RawBody ''ok''\<rparr>, []) \<and>
   content \<lparr>status_code = 200, content = RawBody ''ok''\<rparr> = RawBody ''ok'' \<and>
   dispatch_webhook_via plain_text_client [(''event'', JStr ''x'')] =
     (Inr (),
      [LogInfo ''Waiting 1 second before dispatching webhook...'' [],
       Sleep 1,
       HttpPost ''/app-webhook-listener'' (JObj [(''event'', JStr ''x'')]) 10,
       LogInfo ''Webhook POST completed with status %s and payload %s''
         [ArgStatus 200, ArgText ''ok'']])"
proof -
  have c: "plain_text_client ''/app-webhook-listener'' (JObj [(''event'', JStr ''x'')]) 10 =
     (Inr \<lparr>status_code = 200, content = RawBody ''ok''\<rparr>, [])"
    by (simp add: plain_text_client_def)
  have b: "content \<lparr>status_code = 200, content = RawBody ''ok''\<rparr> = RawBody ''ok''"
    by simp
  from dispatch_webhook_falls_back_to_text
    [where cl = plain_text_client and wp = "[(''event'', JStr ''x'')]", OF c b] c b
  show ?thesis by simp
qed

end
